theory Spec2Isabelle
  imports Complex_Main "HOL-Library.Monad_Syntax"
begin

section \<open>Go values reaching the Zoho provider\<close>

text \<open>
  A value of Go's \<^verbatim>\<open>interface{}\<close> as it comes out of a JSON decoder: nil, bool,
  float64, string, \<^verbatim>\<open>[]interface{}\<close> and \<^verbatim>\<open>map[string]interface{}\<close>. Every finite
  float64 is a real number, so \<open>JNumber\<close> carries a \<open>real\<close>; nothing below looks
  at the number itself.
\<close>

datatype json_value =
    JNull
  | JBool bool
  | JNumber real
  | JString string
  | JArray "json_value list"
  | JObject "(string \<times> json_value) list"

text \<open>
  \<^verbatim>\<open>jwt.MapClaims\<close> is \<^verbatim>\<open>map[string]interface{}\<close>. Indexing a Go map with a key it does
  not hold gives the nil interface, which is \<open>None\<close> here; a nil map and an empty
  map index alike.
\<close>

type_synonym MapClaims = "string \<rightharpoonup> json_value"

text \<open>
  The two forms of a type assertion to \<^verbatim>\<open>string\<close>. The comma-ok form
  \<^verbatim>\<open>v, ok := x.(string)\<close> never fails: on a nil or non-string value it gives the
  zero string and false. The single-value form \<^verbatim>\<open>x.(string)\<close> panics there, which
  is \<open>None\<close>.
\<close>

definition assert_string_ok :: "json_value option \<Rightarrow> string \<times> bool" where
  "assert_string_ok x = (case x of Some (JString s) \<Rightarrow> (s, True) | _ \<Rightarrow> ('''', False))"

definition assert_string :: "json_value option \<Rightarrow> string option" where
  "assert_string x = (case x of Some (JString s) \<Rightarrow> Some s | _ \<Rightarrow> None)"

text \<open>
  \<^verbatim>\<open>time.Time\<close> as an instant, counted from the zero Time; \<^verbatim>\<open>types.DateTime\<close> wraps
  one, and its zero value wraps the zero Time.
\<close>

type_synonym Time = int

datatype DateTime = DateTime Time

definition zeroDateTime :: DateTime where
  "zeroDateTime = DateTime 0"

text \<open>
  \<^verbatim>\<open>oauth2.Token\<close>. Its private \<^verbatim>\<open>raw\<close> field holds the token response, a JSON object
  or a form; it is kept here as what \<^verbatim>\<open>Extra(key)\<close> returns for each key: a value of
  any type, or nil (\<open>None\<close>). For a form \<^verbatim>\<open>Extra\<close> returns the empty string for a key
  that is absent, and a number for a value that reads as one.
\<close>

record Token =
  AccessToken :: string
  TokenType :: string
  RefreshToken :: string
  Expiry :: Time
  raw :: "string \<rightharpoonup> json_value"

definition Extra :: "Token \<Rightarrow> string \<Rightarrow> json_value option" where
  "Extra token key = raw token key"

text \<open>
  Modelled from the spec: the declaration of \<^verbatim>\<open>AuthUser\<close> is not among the sources.
  The spec: "AuthUser: normalized output - id, username, name, email, avatarUrl, a
  copy of raw provider claims/attributes, accessToken, refreshToken, expiry". The
  fields have the names and the types \<^verbatim>\<open>FetchAuthUser\<close> gives them.
\<close>

record AuthUser =
  Id :: string
  Username :: string
  Name :: string
  Email :: string
  AvatarUrl :: string
  RawUser :: MapClaims
  AccessToken :: string
  RefreshToken :: string
  Expiry :: DateTime

text \<open>
  Modelled from the spec: the declaration of \<^verbatim>\<open>BaseProvider\<close> is not among the
  sources. The spec: "ProviderConfig: clientId, clientSecret, redirectURL, scopes
  (ordered sequence of strings), authURL, tokenURL, userInfoURL, displayName,
  pkceEnabled (bool), context". The fields have the names \<^verbatim>\<open>NewZohoProvider\<close> and
  \<^verbatim>\<open>parseIDToken\<close> use; one that a composite literal leaves out has Go's zero value.
\<close>

datatype Context = Background

record BaseProvider =
  ctx :: Context
  clientId :: string
  clientSecret :: string
  displayName :: string
  redirectURL :: string
  authURL :: string
  tokenURL :: string
  userInfoURL :: string
  scopes :: "string list"
  pkce :: bool

text \<open>\<^verbatim>\<open>type Zoho struct { BaseProvider }\<close>\<close>

record Zoho =
  BaseProvider :: BaseProvider

section \<open>Errors\<close>

text \<open>
  The error of \<^verbatim>\<open>jwt.Parser.ParseUnverified\<close>: a \<^verbatim>\<open>*jwt.ValidationError\<close>, malformed
  (a wrong number of segments, a bearer prefix, or an inner decoding error with its
  message) or unverifiable (the header's alg).
\<close>

datatype ValidationError =
    InvalidNumberOfSegments
  | ContainsBearer
  | Malformed string
  | SigningMethodUnavailable
  | SigningMethodUnspecified

text \<open>
  The errors \<^verbatim>\<open>zoho.go\<close> builds: \<^verbatim>\<open>errors.New(text)\<close> and \<^verbatim>\<open>fmt.Errorf(format, arg)\<close>,
  kept with the format string and the argument as the source writes them.
\<close>

datatype errarg = ArgString string | ArgError ValidationError

datatype error = New string | Errorf string errarg

text \<open>
  What a call of \<^verbatim>\<open>FetchAuthUser\<close> does: it returns its pair \<^verbatim>\<open>(*AuthUser, error)\<close>,
  each nil or not, or it panics at a failed type assertion.
\<close>

datatype fetch_result = Return "AuthUser option" "error option" | Panic

section \<open>The JWT library\<close>

text \<open>
  Modelled from the spec: \<^verbatim>\<open>jwt.Parser.ParseUnverified\<close> and \<^verbatim>\<open>MapClaims.VerifyAudience\<close>
  belong to the golang-jwt library, which is not among the sources. The spec:
  "decodes a signed JWT's claim set without verifying the signature" and "Validate
  aud contains the configured clientId". The model follows the library's
  documented steps. Its base64url and JSON decoders and its table of signing
  methods are parameters, so every theorem below holds for whatever they compute.
\<close>

record jwt_lib =
  DecodeSegment :: "string \<Rightarrow> string + string"
  Unmarshal :: "string \<Rightarrow> string + MapClaims"
  Decode :: "string \<Rightarrow> string + MapClaims"
  GetSigningMethod :: "string \<Rightarrow> bool"

text \<open>\<^verbatim>\<open>strings.Split(s, sep)\<close> for a separator of one byte.\<close>

fun Split :: "string \<Rightarrow> char \<Rightarrow> string list" where
  "Split [] sep = [[]]"
| "Split (c # cs) sep =
     (if c = sep then [] # Split cs sep
      else (case Split cs sep of x # xs \<Rightarrow> (c # x) # xs | [] \<Rightarrow> [[c]]))"

text \<open>
  \<^verbatim>\<open>strings.ToLower\<close> on the ASCII letters and \<^verbatim>\<open>strings.HasPrefix\<close>. The library
  only asks whether the lowered token starts with \<^verbatim>\<open>"bearer "\<close>, and no character
  outside ASCII lowers to one of its letters.
\<close>

definition lower :: "char \<Rightarrow> char" where
  "lower c = (let n = (of_char c :: nat) in if 65 \<le> n \<and> n \<le> 90 then char_of (n + 32) else c)"

definition ToLower :: "string \<Rightarrow> string" where
  "ToLower s = map lower s"

definition HasPrefix :: "string \<Rightarrow> string \<Rightarrow> bool" where
  "HasPrefix s prefix = (take (length prefix) s = prefix)"

definition ParseUnverified :: "jwt_lib \<Rightarrow> string \<Rightarrow> ValidationError + MapClaims" where
  "ParseUnverified lib tokenString =
     (let parts = Split tokenString (CHR ''.'') in
      if length parts \<noteq> 3 then Inl InvalidNumberOfSegments
      else
        (case DecodeSegment lib (parts ! 0) of
           Inl err \<Rightarrow>
             if HasPrefix (ToLower tokenString) ''bearer '' then Inl ContainsBearer
             else Inl (Malformed err)
         | Inr headerBytes \<Rightarrow>
             (case Unmarshal lib headerBytes of
                Inl err \<Rightarrow> Inl (Malformed err)
              | Inr Header \<Rightarrow>
                  (case DecodeSegment lib (parts ! 1) of
                     Inl err \<Rightarrow> Inl (Malformed err)
                   | Inr claimBytes \<Rightarrow>
                       (case Decode lib claimBytes of
                          Inl err \<Rightarrow> Inl (Malformed err)
                        | Inr claims \<Rightarrow>
                            (let (method, ok) = assert_string_ok (Header ''alg'') in
                             if ok then
                               if GetSigningMethod lib method then Inr claims
                               else Inl SigningMethodUnavailable
                             else Inl SigningMethodUnspecified))))))"

text \<open>
  \<^verbatim>\<open>VerifyAudience(cmp, req)\<close>: the aud claim is one string or a list of strings (a
  list holding anything else fails); \<^verbatim>\<open>verifyAud\<close> then looks for \<open>cmp\<close> among
  them. An absent aud, and one whose strings are all empty, pass only when not
  required.
\<close>

fun aud_strings :: "json_value list \<Rightarrow> string list option" where
  "aud_strings [] = Some []"
| "aud_strings (JString vs # v) = map_option (\<lambda>aud. vs # aud) (aud_strings v)"
| "aud_strings (_ # v) = None"

definition verifyAud :: "string list \<Rightarrow> string \<Rightarrow> bool \<Rightarrow> bool" where
  "verifyAud aud cmp required =
     (if length aud = 0 then \<not> required
      else if length (concat aud) = 0 then \<not> required
      else cmp \<in> set aud)"

definition VerifyAudience :: "MapClaims \<Rightarrow> string \<Rightarrow> bool \<Rightarrow> bool" where
  "VerifyAudience m cmp req =
     (case m ''aud'' of
        Some (JString v) \<Rightarrow> verifyAud [v] cmp req
      | Some (JArray v) \<Rightarrow>
          (case aud_strings v of None \<Rightarrow> False | Some aud \<Rightarrow> verifyAud aud cmp req)
      | _ \<Rightarrow> verifyAud [] cmp req)"

section \<open>The Zoho provider\<close>

definition NameZoho :: string where
  "NameZoho = ''zoho''"

definition validIssuers :: "string list" where
  "validIssuers =
     [''https://accounts.zoho.com.au'',
      ''https://accounts.zohocloud.ca'',
      ''https://accounts.zoho.eu'',
      ''https://accounts.zoho.com'',
      ''https://accounts.zoho.in'',
      ''https://accounts.zoho.jp'',
      ''https://accounts.zoho.sa'',
      ''https://accounts.zoho.uk'',
      ''https://accounts.zoho.com.cn'']"

text \<open>The loop over \<^verbatim>\<open>validIssuers\<close>: true at the first equal entry.\<close>

fun isValidIssuer :: "string list \<Rightarrow> string \<Rightarrow> bool" where
  "isValidIssuer [] issuer = False"
| "isValidIssuer (validIssuer # rest) issuer =
     (if issuer = validIssuer then True else isValidIssuer rest issuer)"

definition parseIDToken :: "jwt_lib \<Rightarrow> Zoho \<Rightarrow> string \<Rightarrow> MapClaims option \<times> error option" where
  "parseIDToken lib p rawIDToken =
     (case ParseUnverified lib rawIDToken of
        Inl err \<Rightarrow> (None, Some (Errorf ''failed to parse id_token: %w'' (ArgError err)))
      | Inr claims \<Rightarrow>
          (let (issuer, _) = assert_string_ok (claims ''iss'') in
           if \<not> isValidIssuer validIssuers issuer then
             (None, Some (Errorf ''invalid id_token issuer: %s'' (ArgString issuer)))
           else if \<not> VerifyAudience claims (clientId (BaseProvider p)) True then
             (None, Some (New ''invalid id_token audience''))
           else (Some claims, None)))"

text \<open>
  \<^verbatim>\<open>FetchAuthUser\<close>. \<^verbatim>\<open>types.ParseDateTime\<close> is not among the sources and is the
  parameter \<open>ParseDateTime\<close>: it returns a DateTime and an error (nil or not), and
  the source drops the error. The five single-value type assertions of the
  composite literal run in the order written, and the first that fails panics.
\<close>

definition FetchAuthUser ::
  "jwt_lib \<Rightarrow> (Time \<Rightarrow> DateTime \<times> string option) \<Rightarrow> Zoho \<Rightarrow> Token \<Rightarrow> fetch_result" where
  "FetchAuthUser lib ParseDateTime p token =
     (let (rawIDToken, ok) = assert_string_ok (Extra token ''id_token'') in
      if \<not> ok \<or> rawIDToken = '''' then Return None (Some (New ''missing id_token''))
      else
        (case parseIDToken lib p rawIDToken of
           (_, Some err) \<Rightarrow> Return None (Some err)
         | (claims_opt, None) \<Rightarrow>
             (let claims = (case claims_opt of None \<Rightarrow> Map.empty | Some c \<Rightarrow> c) in
              case
                do {
                  sub \<leftarrow> assert_string (claims ''sub'');
                  username \<leftarrow> assert_string (claims ''email'');
                  name \<leftarrow> assert_string (claims ''name'');
                  email \<leftarrow> assert_string (claims ''email'');
                  picture \<leftarrow> assert_string (claims ''picture'');
                  let user =
                    \<lparr>Id = sub, Username = username, Name = name, Email = email,
                     AvatarUrl = picture, RawUser = claims,
                     AccessToken = Token.AccessToken token,
                     RefreshToken = Token.RefreshToken token,
                     Expiry = zeroDateTime\<rparr>;
                  user \<leftarrow>
                    (if claims ''email_verified'' = Some (JBool True) then
                       do {
                         verified \<leftarrow> assert_string (claims ''email'');
                         Some (user\<lparr>Email := verified\<rparr>)
                       }
                     else Some user);
                  let (expiry, _) = ParseDateTime (Token.Expiry token);
                  Some (user\<lparr>Expiry := expiry\<rparr>)
                }
              of
                None \<Rightarrow> Panic
              | Some user \<Rightarrow> Return (Some user) None)))"

section \<open>The provider registry\<close>

text \<open>
  \<^verbatim>\<open>NewZohoProvider\<close> returns a pointer to a newly allocated \<^verbatim>\<open>Zoho\<close>. The heap is the
  list of the objects allocated so far and a pointer is an index into it, so a new
  object gets the next index and every older pointer keeps its object.
\<close>

type_synonym addr = nat

type_synonym heap = "Zoho list"

definition NewZohoProvider :: "heap \<Rightarrow> addr \<times> heap" where
  "NewZohoProvider h =
     (length h,
      h @ [\<lparr>BaseProvider =
             \<lparr>ctx = Background,
              clientId = '''',
              clientSecret = '''',
              displayName = ''Zoho'',
              redirectURL = '''',
              authURL = ''https://accounts.zoho.com/oauth/v2/auth'',
              tokenURL = ''https://accounts.zoho.com/oauth/v2/token'',
              userInfoURL = '''',
              scopes = [''profile'', ''email'', ''openid''],
              pkce = True\<rparr>\<rparr>])"

text \<open>
  Modelled from the spec: the registry table \<^verbatim>\<open>Providers\<close>, \<^verbatim>\<open>wrapFactory\<close>, the lookup
  by name and the mutators of \<^verbatim>\<open>BaseProvider\<close> are not among the sources. The spec:
  "A name-to-constructor mapping populated at process startup (each provider module
  registers itself). get(name) returns a brand-new provider instance (not a shared
  singleton) configured with that provider's fixed defaults"; "Looking up an
  unregistered name is a fatal unknown provider error"; "accessors/mutators for
  clientId, clientSecret".
\<close>

type_synonym ProviderFactoryFunc = "heap \<Rightarrow> addr \<times> heap"

type_synonym registry = "string \<rightharpoonup> ProviderFactoryFunc"

definition wrapFactory :: "(heap \<Rightarrow> addr \<times> heap) \<Rightarrow> ProviderFactoryFunc" where
  "wrapFactory factory = (\<lambda>h. factory h)"

text \<open>\<^verbatim>\<open>init\<close> of \<^verbatim>\<open>zoho.go\<close>, run on the table the other providers have filled.\<close>

definition init :: "registry \<Rightarrow> registry" where
  "init Providers = Providers(NameZoho \<mapsto> wrapFactory NewZohoProvider)"

datatype registry_error = UnknownProvider string

definition NewProviderByName :: "registry \<Rightarrow> string \<Rightarrow> heap \<Rightarrow> registry_error + addr \<times> heap" where
  "NewProviderByName Providers name h =
     (case Providers name of
        None \<Rightarrow> Inl (UnknownProvider name)
      | Some factory \<Rightarrow> Inr (factory h))"

definition SetClientId :: "addr \<Rightarrow> string \<Rightarrow> heap \<Rightarrow> heap" where
  "SetClientId a v h =
     (if a < length h then h[a := (h ! a)\<lparr>BaseProvider := (BaseProvider (h ! a))\<lparr>clientId := v\<rparr>\<rparr>]
      else h)"

definition SetClientSecret :: "addr \<Rightarrow> string \<Rightarrow> heap \<Rightarrow> heap" where
  "SetClientSecret a v h =
     (if a < length h then h[a := (h ! a)\<lparr>BaseProvider := (BaseProvider (h ! a))\<lparr>clientSecret := v\<rparr>\<rparr>]
      else h)"

section \<open>What the claims speak of\<close>

text \<open>The aud claim holds the string \<open>cid\<close>: it is that string, or a list with it.\<close>

definition aud_contains :: "MapClaims \<Rightarrow> string \<Rightarrow> bool" where
  "aud_contains claims cid =
     (case claims ''aud'' of
        Some (JString v) \<Rightarrow> v = cid
      | Some (JArray vs) \<Rightarrow> JString cid \<in> set vs
      | _ \<Rightarrow> False)"

text \<open>The token with another id_token in its response.\<close>

definition with_id_token :: "Token \<Rightarrow> string \<Rightarrow> Token" where
  "with_id_token token rawIDToken = token\<lparr>raw := (raw token)(''id_token'' \<mapsto> JString rawIDToken)\<rparr>"

section \<open>Example tokens\<close>

text \<open>
  A library instance for the examples. Segments are decoded as unpadded base64url
  (four characters of the URL alphabet give three bytes). The JSON decoders know
  the texts of the examples and report a syntax error on any other text; the
  signing methods are the ones golang-jwt registers.
\<close>

definition alphabet :: string where
  "alphabet = ''ABCDEFGHIJKLMNOPQRSTUVWXYZabcdefghijklmnopqrstuvwxyz0123456789-_''"

fun index_of :: "char \<Rightarrow> string \<Rightarrow> nat option" where
  "index_of c [] = None"
| "index_of c (a # as) = (if c = a then Some 0 else map_option Suc (index_of c as))"

fun sextets :: "string \<Rightarrow> nat list option" where
  "sextets [] = Some []"
| "sextets (c # cs) =
     (case index_of c alphabet of
        None \<Rightarrow> None
      | Some v \<Rightarrow> map_option (\<lambda>vs. v # vs) (sextets cs))"

fun octets :: "nat list \<Rightarrow> string option" where
  "octets (a # b # c # d # rest) =
     map_option
       (\<lambda>bs. char_of (a * 4 + b div 16) # char_of ((b mod 16) * 16 + c div 4)
              # char_of ((c mod 4) * 64 + d) # bs)
       (octets rest)"
| "octets [a, b, c] = Some [char_of (a * 4 + b div 16), char_of ((b mod 16) * 16 + c div 4)]"
| "octets [a, b] = Some [char_of (a * 4 + b div 16)]"
| "octets [a] = None"
| "octets [] = Some []"

definition example_DecodeSegment :: "string \<Rightarrow> string + string" where
  "example_DecodeSegment seg =
     (case Option.bind (sextets seg) octets of
        None \<Rightarrow> Inl ''illegal base64 data''
      | Some bytes \<Rightarrow> Inr bytes)"

definition header_RS256 :: MapClaims where
  "header_RS256 = map_of [(''alg'', JString ''RS256''), (''typ'', JString ''JWT'')]"

definition claims_with :: "string \<Rightarrow> string \<Rightarrow> (string \<times> json_value) list \<Rightarrow> MapClaims" where
  "claims_with iss aud rest = map_of ((''iss'', JString iss) # (''aud'', JString aud) # rest)"

definition identity_claims :: "(string \<times> json_value) list" where
  "identity_claims =
     [(''sub'', JString ''123''), (''email'', JString ''a@b.com''),
      (''name'', JString ''A B''), (''picture'', JString ''http://x/y.png'')]"

definition claims_good :: MapClaims where
  "claims_good = claims_with ''https://accounts.zoho.com'' ''client-1'' identity_claims"

definition claims_de :: MapClaims where
  "claims_de = claims_with ''https://accounts.zoho.de'' ''client-1'' identity_claims"

definition claims_other_aud :: MapClaims where
  "claims_other_aud = claims_with ''https://accounts.zoho.com'' ''client-2'' identity_claims"

definition claims_empty :: MapClaims where
  "claims_empty =
     claims_with ''https://accounts.zoho.com'' ''client-1''
       [(''sub'', JString ''''), (''email'', JString ''''),
        (''name'', JString ''''), (''picture'', JString '''')]"

definition claims_no_picture :: MapClaims where
  "claims_no_picture =
     claims_with ''https://accounts.zoho.com'' ''client-1''
       [(''sub'', JString ''123''), (''email'', JString ''a@b.com''), (''name'', JString ''A B'')]"

definition claims_verified :: MapClaims where
  "claims_verified =
     claims_with ''https://accounts.zoho.com'' ''client-1''
       ((''email_verified'', JBool True) # identity_claims)"

definition claims_unverified :: MapClaims where
  "claims_unverified =
     claims_with ''https://accounts.zoho.com'' ''client-1''
       ((''email_verified'', JBool False) # identity_claims)"

text \<open>The JSON texts of the header and of the payloads.\<close>

definition json_header :: string where
  \<open>json_header = ''{"alg":"RS256","typ":"JWT"}''\<close>

definition json_good :: string where
  \<open>json_good = ''{"iss":"https://accounts.zoho.com","aud":"client-1","sub":"123","email":"a@b.com","name":"A B","picture":"http://x/y.png"}''\<close>

definition json_de :: string where
  \<open>json_de = ''{"iss":"https://accounts.zoho.de","aud":"client-1","sub":"123","email":"a@b.com","name":"A B","picture":"http://x/y.png"}''\<close>

definition json_other_aud :: string where
  \<open>json_other_aud = ''{"iss":"https://accounts.zoho.com","aud":"client-2","sub":"123","email":"a@b.com","name":"A B","picture":"http://x/y.png"}''\<close>

definition json_empty :: string where
  \<open>json_empty = ''{"iss":"https://accounts.zoho.com","aud":"client-1","sub":"","email":"","name":"","picture":""}''\<close>

definition json_no_picture :: string where
  \<open>json_no_picture = ''{"iss":"https://accounts.zoho.com","aud":"client-1","sub":"123","email":"a@b.com","name":"A B"}''\<close>

definition json_verified :: string where
  \<open>json_verified = ''{"iss":"https://accounts.zoho.com","aud":"client-1","sub":"123","email":"a@b.com","email_verified":true,"name":"A B","picture":"http://x/y.png"}''\<close>

definition json_unverified :: string where
  \<open>json_unverified = ''{"iss":"https://accounts.zoho.com","aud":"client-1","sub":"123","email":"a@b.com","email_verified":false,"name":"A B","picture":"http://x/y.png"}''\<close>

definition example_json :: "(string \<times> MapClaims) list" where
  "example_json =
     [(json_header, header_RS256),
      (json_good, claims_good),
      (json_de, claims_de),
      (json_other_aud, claims_other_aud),
      (json_empty, claims_empty),
      (json_no_picture, claims_no_picture),
      (json_verified, claims_verified),
      (json_unverified, claims_unverified)]"

definition example_Unmarshal :: "string \<Rightarrow> string + MapClaims" where
  "example_Unmarshal bytes =
     (case map_of example_json bytes of
        None \<Rightarrow> Inl ''invalid character''
      | Some m \<Rightarrow> Inr m)"

definition example_lib :: jwt_lib where
  "example_lib =
     \<lparr>DecodeSegment = example_DecodeSegment,
      Unmarshal = example_Unmarshal,
      Decode = example_Unmarshal,
      GetSigningMethod =
        (\<lambda>alg. alg \<in> set
           [''HS256'', ''HS384'', ''HS512'', ''RS256'', ''RS384'', ''RS512'',
            ''PS256'', ''PS384'', ''PS512'', ''ES256'', ''ES384'', ''ES512'',
            ''EdDSA'', ''none''])\<rparr>"

text \<open>The segments: the header and the payloads above, and two signatures.\<close>

definition seg_header :: string where
  "seg_header = ''eyJhbGciOiJSUzI1NiIsInR5cCI6IkpXVCJ9''"

definition seg_good :: string where
  "seg_good = ''eyJpc3MiOiJodHRwczovL2FjY291bnRzLnpvaG8uY29tIiwiYXVkIjoiY2xpZW50LTEiLCJzdWIiOiIxMjMiLCJlbWFpbCI6ImFAYi5jb20iLCJuYW1lIjoiQSBCIiwicGljdHVyZSI6Imh0dHA6Ly94L3kucG5nIn0''"

definition seg_de :: string where
  "seg_de = ''eyJpc3MiOiJodHRwczovL2FjY291bnRzLnpvaG8uZGUiLCJhdWQiOiJjbGllbnQtMSIsInN1YiI6IjEyMyIsImVtYWlsIjoiYUBiLmNvbSIsIm5hbWUiOiJBIEIiLCJwaWN0dXJlIjoiaHR0cDovL3gveS5wbmcifQ''"

definition seg_other_aud :: string where
  "seg_other_aud = ''eyJpc3MiOiJodHRwczovL2FjY291bnRzLnpvaG8uY29tIiwiYXVkIjoiY2xpZW50LTIiLCJzdWIiOiIxMjMiLCJlbWFpbCI6ImFAYi5jb20iLCJuYW1lIjoiQSBCIiwicGljdHVyZSI6Imh0dHA6Ly94L3kucG5nIn0''"

definition seg_empty :: string where
  "seg_empty = ''eyJpc3MiOiJodHRwczovL2FjY291bnRzLnpvaG8uY29tIiwiYXVkIjoiY2xpZW50LTEiLCJzdWIiOiIiLCJlbWFpbCI6IiIsIm5hbWUiOiIiLCJwaWN0dXJlIjoiIn0''"

definition seg_no_picture :: string where
  "seg_no_picture = ''eyJpc3MiOiJodHRwczovL2FjY291bnRzLnpvaG8uY29tIiwiYXVkIjoiY2xpZW50LTEiLCJzdWIiOiIxMjMiLCJlbWFpbCI6ImFAYi5jb20iLCJuYW1lIjoiQSBCIn0''"

definition seg_verified :: string where
  "seg_verified = ''eyJpc3MiOiJodHRwczovL2FjY291bnRzLnpvaG8uY29tIiwiYXVkIjoiY2xpZW50LTEiLCJzdWIiOiIxMjMiLCJlbWFpbCI6ImFAYi5jb20iLCJlbWFpbF92ZXJpZmllZCI6dHJ1ZSwibmFtZSI6IkEgQiIsInBpY3R1cmUiOiJodHRwOi8veC95LnBuZyJ9''"

definition seg_unverified :: string where
  "seg_unverified = ''eyJpc3MiOiJodHRwczovL2FjY291bnRzLnpvaG8uY29tIiwiYXVkIjoiY2xpZW50LTEiLCJzdWIiOiIxMjMiLCJlbWFpbCI6ImFAYi5jb20iLCJlbWFpbF92ZXJpZmllZCI6ZmFsc2UsIm5hbWUiOiJBIEIiLCJwaWN0dXJlIjoiaHR0cDovL3gveS5wbmcifQ''"

definition jwt :: "string \<Rightarrow> string \<Rightarrow> string \<Rightarrow> string" where
  "jwt header payload signature = header @ ''.'' @ payload @ ''.'' @ signature"

definition example_token :: "string \<Rightarrow> Token" where
  "example_token rawIDToken =
     \<lparr>Token.AccessToken = ''access'', TokenType = ''Bearer'', Token.RefreshToken = ''refresh'',
      Token.Expiry = 1700000000, raw = [''id_token'' \<mapsto> JString rawIDToken]\<rparr>"

text \<open>A token response that carries no id_token.\<close>

definition token_without_id_token :: Token where
  "token_without_id_token =
     \<lparr>Token.AccessToken = ''access'', TokenType = ''Bearer'', Token.RefreshToken = ''refresh'',
      Token.Expiry = 1700000000, raw = Map.empty\<rparr>"

text \<open>A provider from the constructor, with the client id of the examples.\<close>

definition example_zoho :: Zoho where
  "example_zoho = (let (a, h) = NewZohoProvider [] in SetClientId a ''client-1'' h ! a)"

text \<open>
  The conversion of the examples: it wraps the Time and returns no error.
\<close>

definition ParseDateTime_ok :: "Time \<Rightarrow> DateTime \<times> string option" where
  "ParseDateTime_ok t = (DateTime t, None)"

text \<open>Two signature segments, and the user the example identity claims give.\<close>

definition sig_a :: string where
  "sig_a = ''c2lnbmF0dXJl''"

definition sig_b :: string where
  "sig_b = ''b3RoZXI''"

definition example_user :: "MapClaims \<Rightarrow> DateTime \<Rightarrow> AuthUser" where
  "example_user claims expiry =
     \<lparr>Id = ''123'', Username = ''a@b.com'', Name = ''A B'', Email = ''a@b.com'',
      AvatarUrl = ''http://x/y.png'', RawUser = claims,
      AccessToken = ''access'', RefreshToken = ''refresh'', Expiry = expiry\<rparr>"

section \<open>Splitting a token into its segments\<close>

lemma Split_no_sep: "sep \<notin> set s \<Longrightarrow> Split s sep = [s]"
  by (induction s) auto

lemma Split_append: "sep \<notin> set a \<Longrightarrow> Split (a @ sep # b) sep = a # Split b sep"
  by (induction a) auto

lemma Split_jwt:
  assumes "CHR ''.'' \<notin> set h" "CHR ''.'' \<notin> set pl" "CHR ''.'' \<notin> set s"
  shows "Split (jwt h pl s) (CHR ''.'') = [h, pl, s]"
  using assms by (simp add: jwt_def Split_append Split_no_sep)

lemma lower_dot: "lower (CHR ''.'') = CHR ''.''"
  by (simp add: lower_def)

lemma bearer_prefix_header:
  assumes "CHR ''.'' \<notin> set h"
  shows "HasPrefix (ToLower (h @ CHR ''.'' # rest)) ''bearer '' = HasPrefix (ToLower h) ''bearer ''"
proof -
  have n: "length ''bearer '' = 7" by simp
  show ?thesis
  proof (cases "7 \<le> length h")
    case True
    then show ?thesis unfolding HasPrefix_def ToLower_def n by simp
  next
    case False
    then have short: "length h < 7" by simp
    have "take 7 (map lower h) \<noteq> ''bearer ''"
    proof
      assume "take 7 (map lower h) = ''bearer ''"
      then have "length (take 7 (map lower h)) = 7" by simp
      with short show False by simp
    qed
    moreover have "take 7 (map lower (h @ CHR ''.'' # rest)) \<noteq> ''bearer ''"
    proof
      assume eq: "take 7 (map lower (h @ CHR ''.'' # rest)) = ''bearer ''"
      have "take 7 (map lower (h @ CHR ''.'' # rest)) ! length h = CHR ''.''"
        using short by (simp add: nth_append lower_dot)
      moreover have "length h < length (take 7 (map lower (h @ CHR ''.'' # rest)))"
        using short by simp
      ultimately have "CHR ''.'' \<in> set (take 7 (map lower (h @ CHR ''.'' # rest)))"
        using nth_mem by metis
      with eq show False by simp
    qed
    ultimately show ?thesis unfolding HasPrefix_def ToLower_def n by blast
  qed
qed

lemma ParseUnverified_signature:
  assumes "CHR ''.'' \<notin> set h" "CHR ''.'' \<notin> set pl" "CHR ''.'' \<notin> set s1" "CHR ''.'' \<notin> set s2"
  shows "ParseUnverified lib (jwt h pl s1) = ParseUnverified lib (jwt h pl s2)"
proof -
  have "HasPrefix (ToLower (jwt h pl s)) ''bearer '' = HasPrefix (ToLower h) ''bearer ''" for s
    using bearer_prefix_header [OF assms(1)] by (simp add: jwt_def)
  then show ?thesis
    using assms by (simp add: ParseUnverified_def Split_jwt cong: sum.case_cong)
qed


section \<open>The example tokens decoded\<close>

lemma ParseUnverified_jwt:
  assumes "CHR ''.'' \<notin> set h" "CHR ''.'' \<notin> set pl" "CHR ''.'' \<notin> set s"
    and "DecodeSegment lib h = Inr headerBytes" "Unmarshal lib headerBytes = Inr Header"
    and "DecodeSegment lib pl = Inr claimBytes" "Decode lib claimBytes = Inr claims"
    and "Header ''alg'' = Some (JString method)" "GetSigningMethod lib method"
  shows "ParseUnverified lib (jwt h pl s) = Inr claims"
  using assms by (simp add: ParseUnverified_def Split_jwt assert_string_ok_def)

lemma decode_seg_header: "example_DecodeSegment seg_header = Inr json_header"
  by code_simp

lemma decode_seg_good: "example_DecodeSegment seg_good = Inr json_good"
  by code_simp

lemma decode_seg_de: "example_DecodeSegment seg_de = Inr json_de"
  by code_simp

lemma decode_seg_other_aud: "example_DecodeSegment seg_other_aud = Inr json_other_aud"
  by code_simp

lemma decode_seg_empty: "example_DecodeSegment seg_empty = Inr json_empty"
  by code_simp

lemma decode_seg_no_picture: "example_DecodeSegment seg_no_picture = Inr json_no_picture"
  by code_simp

lemma decode_seg_verified: "example_DecodeSegment seg_verified = Inr json_verified"
  by code_simp

lemma decode_seg_unverified: "example_DecodeSegment seg_unverified = Inr json_unverified"
  by code_simp

lemmas json_texts =
  json_header_def json_good_def json_de_def json_other_aud_def json_empty_def
  json_no_picture_def json_verified_def json_unverified_def

lemma seg_no_dot:
  "CHR ''.'' \<notin> set seg_header" "CHR ''.'' \<notin> set seg_good" "CHR ''.'' \<notin> set seg_de"
  "CHR ''.'' \<notin> set seg_other_aud" "CHR ''.'' \<notin> set seg_empty"
  "CHR ''.'' \<notin> set seg_no_picture" "CHR ''.'' \<notin> set seg_verified"
  "CHR ''.'' \<notin> set seg_unverified"
  by (simp_all add: seg_header_def seg_good_def seg_de_def seg_other_aud_def seg_empty_def
      seg_no_picture_def seg_verified_def seg_unverified_def)

lemma example_header:
  assumes "CHR ''.'' \<notin> set pl" "CHR ''.'' \<notin> set s"
    and "example_DecodeSegment pl = Inr claimBytes" "map_of example_json claimBytes = Some claims"
  shows "ParseUnverified example_lib (jwt seg_header pl s) = Inr claims"
proof (rule ParseUnverified_jwt [OF seg_no_dot(1) assms(1,2)])
  show "DecodeSegment example_lib seg_header = Inr json_header"
    using decode_seg_header by (simp add: example_lib_def)
  show "Unmarshal example_lib json_header = Inr header_RS256"
    by (simp add: example_lib_def example_Unmarshal_def example_json_def)
  show "DecodeSegment example_lib pl = Inr claimBytes"
    using assms(3) by (simp add: example_lib_def)
  show "Decode example_lib claimBytes = Inr claims"
    using assms(4) by (simp add: example_lib_def example_Unmarshal_def)
  show "header_RS256 ''alg'' = Some (JString ''RS256'')"
    by (simp add: header_RS256_def)
  show "GetSigningMethod example_lib ''RS256''"
    by (simp add: example_lib_def)
qed

lemma parse_good:
  "CHR ''.'' \<notin> set s \<Longrightarrow> ParseUnverified example_lib (jwt seg_header seg_good s) = Inr claims_good"
  by (rule example_header [OF seg_no_dot(2) _ decode_seg_good]) (simp_all add: example_json_def json_texts)

lemma parse_de:
  "CHR ''.'' \<notin> set s \<Longrightarrow> ParseUnverified example_lib (jwt seg_header seg_de s) = Inr claims_de"
  by (rule example_header [OF seg_no_dot(3) _ decode_seg_de]) (simp_all add: example_json_def json_texts)

lemma parse_other_aud:
  "CHR ''.'' \<notin> set s \<Longrightarrow> ParseUnverified example_lib (jwt seg_header seg_other_aud s) = Inr claims_other_aud"
  by (rule example_header [OF seg_no_dot(4) _ decode_seg_other_aud]) (simp_all add: example_json_def json_texts)

lemma parse_empty:
  "CHR ''.'' \<notin> set s \<Longrightarrow> ParseUnverified example_lib (jwt seg_header seg_empty s) = Inr claims_empty"
  by (rule example_header [OF seg_no_dot(5) _ decode_seg_empty]) (simp_all add: example_json_def json_texts)

lemma parse_no_picture:
  "CHR ''.'' \<notin> set s \<Longrightarrow> ParseUnverified example_lib (jwt seg_header seg_no_picture s) = Inr claims_no_picture"
  by (rule example_header [OF seg_no_dot(6) _ decode_seg_no_picture]) (simp_all add: example_json_def json_texts)

lemma parse_verified:
  "CHR ''.'' \<notin> set s \<Longrightarrow> ParseUnverified example_lib (jwt seg_header seg_verified s) = Inr claims_verified"
  by (rule example_header [OF seg_no_dot(7) _ decode_seg_verified]) (simp_all add: example_json_def json_texts)

lemma parse_unverified:
  "CHR ''.'' \<notin> set s \<Longrightarrow> ParseUnverified example_lib (jwt seg_header seg_unverified s) = Inr claims_unverified"
  by (rule example_header [OF seg_no_dot(8) _ decode_seg_unverified]) (simp_all add: example_json_def json_texts)


section \<open>The steps of parseIDToken and FetchAuthUser\<close>

lemma ParseUnverified_empty: "ParseUnverified lib [] = Inl InvalidNumberOfSegments"
  by (simp add: ParseUnverified_def)

lemma isValidIssuer_iff: "isValidIssuer vs issuer = (issuer \<in> set vs)"
  by (induction vs) auto

lemma aud_strings_map: "aud_strings v = Some aud \<Longrightarrow> v = map JString aud"
  by (induction v arbitrary: aud rule: aud_strings.induct) auto

lemma VerifyAudience_contains:
  assumes "VerifyAudience claims cid True"
  shows "aud_contains claims cid"
  using assms
  by (auto simp: VerifyAudience_def aud_contains_def verifyAud_def
      split: option.splits json_value.splits if_splits dest!: aud_strings_map)

lemma parseIDToken_parse_error:
  "ParseUnverified lib rawIDToken = Inl err \<Longrightarrow>
   parseIDToken lib p rawIDToken = (None, Some (Errorf ''failed to parse id_token: %w'' (ArgError err)))"
  by (simp add: parseIDToken_def)

lemma parseIDToken_parsed:
  "ParseUnverified lib rawIDToken = Inr claims \<Longrightarrow>
   parseIDToken lib p rawIDToken =
     (if \<not> isValidIssuer validIssuers (fst (assert_string_ok (claims ''iss''))) then
        (None, Some (Errorf ''invalid id_token issuer: %s''
                       (ArgString (fst (assert_string_ok (claims ''iss''))))))
      else if \<not> VerifyAudience claims (clientId (BaseProvider p)) True then
        (None, Some (New ''invalid id_token audience''))
      else (Some claims, None))"
  by (simp add: parseIDToken_def split: prod.splits)

lemma parseIDToken_accepted:
  assumes "parseIDToken lib p rawIDToken = (Some claims, None)"
  shows "ParseUnverified lib rawIDToken = Inr claims"
    and "isValidIssuer validIssuers (fst (assert_string_ok (claims ''iss'')))"
    and "VerifyAudience claims (clientId (BaseProvider p)) True"
    and "rawIDToken \<noteq> []"
  using assms ParseUnverified_empty [of lib]
  by (auto simp: parseIDToken_def split: sum.splits prod.splits if_splits)

lemma parseIDToken_shape:
  "(\<exists>claims. parseIDToken lib p rawIDToken = (Some claims, None)) \<or>
   (\<exists>err. parseIDToken lib p rawIDToken = (None, Some err))"
  by (auto simp: parseIDToken_def split: sum.splits prod.splits)

lemma FetchAuthUser_error:
  assumes "Extra token ''id_token'' = Some (JString rawIDToken)" "rawIDToken \<noteq> []"
    and "parseIDToken lib p rawIDToken = (c, Some err)"
  shows "FetchAuthUser lib ParseDateTime p token = Return None (Some err)"
  using assms by (simp add: FetchAuthUser_def assert_string_ok_def)

lemma FetchAuthUser_accepted:
  assumes "Extra token ''id_token'' = Some (JString rawIDToken)" "rawIDToken \<noteq> []"
    and "parseIDToken lib p rawIDToken = (Some claims, None)"
  shows "FetchAuthUser lib ParseDateTime p token =
     (case assert_string (claims ''sub'') of None \<Rightarrow> Panic | Some sub \<Rightarrow>
      case assert_string (claims ''email'') of None \<Rightarrow> Panic | Some email \<Rightarrow>
      case assert_string (claims ''name'') of None \<Rightarrow> Panic | Some name \<Rightarrow>
      case assert_string (claims ''picture'') of None \<Rightarrow> Panic | Some picture \<Rightarrow>
        Return (Some \<lparr>Id = sub, Username = email, Name = name, Email = email,
                      AvatarUrl = picture, RawUser = claims,
                      AccessToken = Token.AccessToken token,
                      RefreshToken = Token.RefreshToken token,
                      Expiry = fst (ParseDateTime (Token.Expiry token))\<rparr>) None)"
  using assms
  by (auto simp: FetchAuthUser_def assert_string_ok_def Let_def split: option.splits prod.splits)

lemma assert_string_Some: "assert_string x = Some s \<longleftrightarrow> x = Some (JString s)"
  by (auto simp: assert_string_def split: option.splits json_value.splits)

section \<open>The example provider and tokens\<close>

lemma example_zoho_clientId: "clientId (BaseProvider example_zoho) = ''client-1''"
  by (simp add: example_zoho_def NewZohoProvider_def SetClientId_def)

lemma sig_no_dot: "CHR ''.'' \<notin> set sig_a" "CHR ''.'' \<notin> set sig_b"
  by (simp_all add: sig_a_def sig_b_def)

lemma jwt_nonempty: "jwt h pl s \<noteq> []"
  by (simp add: jwt_def)

lemma Extra_example_token: "Extra (example_token rawIDToken) ''id_token'' = Some (JString rawIDToken)"
  by (simp add: Extra_def example_token_def)

lemma claims_with_simps:
  "claims_with iss aud rest ''iss'' = Some (JString iss)"
  "claims_with iss aud rest ''aud'' = Some (JString aud)"
  "k \<noteq> ''iss'' \<Longrightarrow> k \<noteq> ''aud'' \<Longrightarrow> claims_with iss aud rest k = map_of rest k"
  by (simp_all add: claims_with_def)

lemma zoho_com_valid: "isValidIssuer validIssuers ''https://accounts.zoho.com''"
  by (simp add: validIssuers_def)

lemma zoho_de_invalid: "\<not> isValidIssuer validIssuers ''https://accounts.zoho.de''"
  by (simp add: validIssuers_def)

lemma accepted_example:
  assumes "ParseUnverified example_lib rawIDToken = Inr (claims_with ''https://accounts.zoho.com'' ''client-1'' rest)"
  shows "parseIDToken example_lib example_zoho rawIDToken =
           (Some (claims_with ''https://accounts.zoho.com'' ''client-1'' rest), None)"
  using zoho_com_valid
  by (simp add: parseIDToken_parsed [OF assms] claims_with_simps assert_string_ok_def
      example_zoho_clientId VerifyAudience_def verifyAud_def)

lemma accepted_good:
  "parseIDToken example_lib example_zoho (jwt seg_header seg_good sig_a) = (Some claims_good, None)"
  using accepted_example [of _ identity_claims] parse_good [OF sig_no_dot(1)]
  by (simp add: claims_good_def)

lemma identity_claims_simps:
  "claims_good ''sub'' = Some (JString ''123'')"
  "claims_good ''email'' = Some (JString ''a@b.com'')"
  "claims_good ''name'' = Some (JString ''A B'')"
  "claims_good ''picture'' = Some (JString ''http://x/y.png'')"
  by (simp_all add: claims_good_def claims_with_def identity_claims_def)

lemma fetch_good:
  "FetchAuthUser example_lib ParseDateTime_ok example_zoho (example_token (jwt seg_header seg_good sig_a))
     = Return (Some (example_user claims_good (DateTime 1700000000))) None"
  unfolding FetchAuthUser_accepted [OF Extra_example_token jwt_nonempty accepted_good]
  by (simp add: assert_string_def identity_claims_simps example_user_def example_token_def ParseDateTime_ok_def)

lemma accepted_empty:
  "parseIDToken example_lib example_zoho (jwt seg_header seg_empty sig_a) = (Some claims_empty, None)"
  using accepted_example parse_empty [OF sig_no_dot(1)]
  by (simp add: claims_empty_def)

lemma accepted_no_picture:
  "parseIDToken example_lib example_zoho (jwt seg_header seg_no_picture sig_a)
     = (Some claims_no_picture, None)"
  using accepted_example parse_no_picture [OF sig_no_dot(1)]
  by (simp add: claims_no_picture_def)

lemma accepted_verified:
  "parseIDToken example_lib example_zoho (jwt seg_header seg_verified sig_a)
     = (Some claims_verified, None)"
  using accepted_example parse_verified [OF sig_no_dot(1)]
  by (simp add: claims_verified_def)

lemma accepted_unverified:
  "parseIDToken example_lib example_zoho (jwt seg_header seg_unverified sig_a)
     = (Some claims_unverified, None)"
  using accepted_example parse_unverified [OF sig_no_dot(1)]
  by (simp add: claims_unverified_def)

lemma fetch_verified:
  "FetchAuthUser example_lib ParseDateTime_ok example_zoho
     (example_token (jwt seg_header seg_verified sig_a))
     = Return (Some (example_user claims_verified (DateTime 1700000000))) None"
  unfolding FetchAuthUser_accepted [OF Extra_example_token jwt_nonempty accepted_verified]
  by (simp add: assert_string_def claims_verified_def claims_with_def identity_claims_def
      example_user_def example_token_def ParseDateTime_ok_def)

lemma fetch_unverified:
  "FetchAuthUser example_lib ParseDateTime_ok example_zoho
     (example_token (jwt seg_header seg_unverified sig_a))
     = Return (Some (example_user claims_unverified (DateTime 1700000000))) None"
  unfolding FetchAuthUser_accepted [OF Extra_example_token jwt_nonempty accepted_unverified]
  by (simp add: assert_string_def claims_unverified_def claims_with_def identity_claims_def
      example_user_def example_token_def ParseDateTime_ok_def)

lemma FetchAuthUser_success:
  assumes "FetchAuthUser lib ParseDateTime p token = Return (Some user) None"
  shows "\<exists>rawIDToken claims.
           Extra token ''id_token'' = Some (JString rawIDToken)
         \<and> rawIDToken \<noteq> []
         \<and> parseIDToken lib p rawIDToken = (Some claims, None)"
proof -
  obtain rawIDToken where extra: "Extra token ''id_token'' = Some (JString rawIDToken)"
    and nonempty: "rawIDToken \<noteq> []"
    using assms
    by (auto simp: FetchAuthUser_def assert_string_ok_def
        split: option.splits json_value.splits if_splits)
  from parseIDToken_shape [of lib p rawIDToken]
  show ?thesis
  proof
    assume "\<exists>claims. parseIDToken lib p rawIDToken = (Some claims, None)"
    with extra nonempty show ?thesis by blast
  next
    assume "\<exists>err. parseIDToken lib p rawIDToken = (None, Some err)"
    then obtain err where "parseIDToken lib p rawIDToken = (None, Some err)" ..
    from FetchAuthUser_error [OF extra nonempty this] assms show ?thesis by simp
  qed
qed

section \<open>A missing id_token\<close>

text \<open>
  C4. When the token's id_token extra field is absent, is not a string, or is the
  empty string, FetchAuthUser returns a nil AuthUser with the error
  errors.New("missing id_token"), whatever the provider, the library and the
  rest of the token are.
\<close>

theorem FetchAuthUser_missing_id_token:
  assumes "Extra token ''id_token'' = None
         \<or> (\<forall>s. Extra token ''id_token'' \<noteq> Some (JString s))
         \<or> Extra token ''id_token'' = Some (JString '''')"
  shows "FetchAuthUser lib ParseDateTime p token = Return None (Some (New ''missing id_token''))"
  using assms
  by (auto simp: FetchAuthUser_def assert_string_ok_def split: option.splits json_value.splits)

theorem FetchAuthUser_missing_id_token_witness:
  "Extra token_without_id_token ''id_token'' = None \<and>
   FetchAuthUser example_lib ParseDateTime_ok example_zoho token_without_id_token
     = Return None (Some (New ''missing id_token''))"
proof -
  have absent: "Extra token_without_id_token ''id_token'' = None"
    by (simp add: Extra_def token_without_id_token_def)
  then have "Extra token_without_id_token ''id_token'' = None
      \<or> (\<forall>s. Extra token_without_id_token ''id_token'' \<noteq> Some (JString s))
      \<or> Extra token_without_id_token ''id_token'' = Some (JString '''')"
    by simp
  from FetchAuthUser_missing_id_token [OF this] absent show ?thesis
    by simp
qed

section \<open>The identity fields\<close>

text \<open>
  C1. For every token whose id_token parses and passes the issuer and the audience
  validation, with the claims sub = "123", email = "a@b.com", name = "A B" and
  picture = "http://x/y.png" (all strings), FetchAuthUser returns an AuthUser and no
  error, with Id = "123", Username = "a@b.com", Name = "A B", Email = "a@b.com" and
  AvatarUrl = "http://x/y.png": the username is the email claim.
\<close>

theorem FetchAuthUser_identity_from_claims:
  assumes "Extra token ''id_token'' = Some (JString rawIDToken)"
    and "ParseUnverified lib rawIDToken = Inr claims"
    and "isValidIssuer validIssuers (fst (assert_string_ok (claims ''iss'')))"
    and "VerifyAudience claims (clientId (BaseProvider p)) True"
    and "claims ''sub'' = Some (JString ''123'')"
    and "claims ''email'' = Some (JString ''a@b.com'')"
    and "claims ''name'' = Some (JString ''A B'')"
    and "claims ''picture'' = Some (JString ''http://x/y.png'')"
  shows "\<exists>user. FetchAuthUser lib ParseDateTime p token = Return (Some user) None
           \<and> AuthUser.Id user = ''123'' \<and> Username user = ''a@b.com'' \<and> Name user = ''A B''
           \<and> Email user = ''a@b.com'' \<and> AvatarUrl user = ''http://x/y.png''
           \<and> Username user = Email user"
proof -
  have accepted: "parseIDToken lib p rawIDToken = (Some claims, None)"
    using assms(3,4) by (simp add: parseIDToken_parsed [OF assms(2)])
  have nonempty: "rawIDToken \<noteq> []"
    using assms(2) ParseUnverified_empty [of lib] by auto
  show ?thesis
    unfolding FetchAuthUser_accepted [OF assms(1) nonempty accepted]
    using assms(5-8) by (simp add: assert_string_def)
qed

theorem FetchAuthUser_identity_from_claims_witness:
  "Extra (example_token (jwt seg_header seg_good sig_a)) ''id_token''
     = Some (JString (jwt seg_header seg_good sig_a))
   \<and> ParseUnverified example_lib (jwt seg_header seg_good sig_a) = Inr claims_good
   \<and> isValidIssuer validIssuers (fst (assert_string_ok (claims_good ''iss'')))
   \<and> VerifyAudience claims_good (clientId (BaseProvider example_zoho)) True
   \<and> (\<exists>user. FetchAuthUser example_lib ParseDateTime_ok example_zoho
                 (example_token (jwt seg_header seg_good sig_a)) = Return (Some user) None
           \<and> AuthUser.Id user = ''123'' \<and> Username user = ''a@b.com'' \<and> Name user = ''A B''
           \<and> Email user = ''a@b.com'' \<and> AvatarUrl user = ''http://x/y.png''
           \<and> Username user = Email user)"
proof -
  have parsed: "ParseUnverified example_lib (jwt seg_header seg_good sig_a) = Inr claims_good"
    by (rule parse_good [OF sig_no_dot(1)])
  have issuer: "isValidIssuer validIssuers (fst (assert_string_ok (claims_good ''iss'')))"
    using zoho_com_valid by (simp add: claims_good_def claims_with_simps assert_string_ok_def)
  have audience: "VerifyAudience claims_good (clientId (BaseProvider example_zoho)) True"
    using parseIDToken_accepted(3) [OF accepted_good] .
  from FetchAuthUser_identity_from_claims
         [OF Extra_example_token parsed issuer audience identity_claims_simps]
    Extra_example_token parsed issuer audience
  show ?thesis by blast
qed

section \<open>Issuer and audience\<close>

text \<open>
  C2. When the iss claim of a parsed id_token is absent, is not a string, or is a
  string outside validIssuers, parseIDToken returns nil claims with the error
  "invalid id_token issuer: %s" of the issuer read (the empty string when there is
  none), and FetchAuthUser returns a nil AuthUser with that error. The witness is
  the issuer https://accounts.zoho.de.
\<close>

theorem parseIDToken_invalid_issuer:
  assumes "Extra token ''id_token'' = Some (JString rawIDToken)"
    and "ParseUnverified lib rawIDToken = Inr claims"
    and "claims ''iss'' = None
       \<or> (\<forall>s. claims ''iss'' \<noteq> Some (JString s))
       \<or> (\<exists>s. claims ''iss'' = Some (JString s) \<and> s \<notin> set validIssuers)"
  shows "parseIDToken lib p rawIDToken =
           (None, Some (Errorf ''invalid id_token issuer: %s''
                          (ArgString (fst (assert_string_ok (claims ''iss''))))))
       \<and> FetchAuthUser lib ParseDateTime p token =
           Return None (Some (Errorf ''invalid id_token issuer: %s''
                          (ArgString (fst (assert_string_ok (claims ''iss''))))))"
proof -
  have "\<not> isValidIssuer validIssuers (fst (assert_string_ok (claims ''iss'')))"
    using assms(3)
    by (auto simp: isValidIssuer_iff assert_string_ok_def validIssuers_def
        split: option.splits json_value.splits)
  then have rejected: "parseIDToken lib p rawIDToken =
           (None, Some (Errorf ''invalid id_token issuer: %s''
                          (ArgString (fst (assert_string_ok (claims ''iss''))))))"
    by (simp add: parseIDToken_parsed [OF assms(2)])
  have nonempty: "rawIDToken \<noteq> []"
    using assms(2) ParseUnverified_empty [of lib] by auto
  from rejected FetchAuthUser_error [OF assms(1) nonempty rejected] show ?thesis
    by simp
qed

theorem parseIDToken_invalid_issuer_witness:
  "Extra (example_token (jwt seg_header seg_de sig_a)) ''id_token''
     = Some (JString (jwt seg_header seg_de sig_a))
   \<and> ParseUnverified example_lib (jwt seg_header seg_de sig_a) = Inr claims_de
   \<and> claims_de ''iss'' = Some (JString ''https://accounts.zoho.de'')
   \<and> ''https://accounts.zoho.de'' \<notin> set validIssuers
   \<and> parseIDToken example_lib example_zoho (jwt seg_header seg_de sig_a) =
           (None, Some (Errorf ''invalid id_token issuer: %s''
                          (ArgString ''https://accounts.zoho.de'')))
   \<and> FetchAuthUser example_lib ParseDateTime_ok example_zoho
         (example_token (jwt seg_header seg_de sig_a)) =
           Return None (Some (Errorf ''invalid id_token issuer: %s''
                          (ArgString ''https://accounts.zoho.de'')))"
proof -
  have parsed: "ParseUnverified example_lib (jwt seg_header seg_de sig_a) = Inr claims_de"
    by (rule parse_de [OF sig_no_dot(1)])
  have iss: "claims_de ''iss'' = Some (JString ''https://accounts.zoho.de'')"
    by (simp add: claims_de_def claims_with_simps)
  have outside: "''https://accounts.zoho.de'' \<notin> set validIssuers"
    using zoho_de_invalid by (simp add: isValidIssuer_iff)
  from iss outside have hyp: "claims_de ''iss'' = None
       \<or> (\<forall>s. claims_de ''iss'' \<noteq> Some (JString s))
       \<or> (\<exists>s. claims_de ''iss'' = Some (JString s) \<and> s \<notin> set validIssuers)"
    by blast
  from parseIDToken_invalid_issuer [OF Extra_example_token parsed hyp, of example_zoho ParseDateTime_ok]
    Extra_example_token parsed iss outside
  show ?thesis by (simp add: assert_string_ok_def)
qed

text \<open>
  C3. For a parsed id_token with a valid issuer: when the aud claim does not hold
  the provider's clientId (an absent aud included), parseIDToken returns nil claims
  with the error "invalid id_token audience", and so does FetchAuthUser; and
  parseIDToken either accepts the claims, and then aud holds the clientId, or fails
  with that error.
\<close>

theorem parseIDToken_audience:
  assumes "Extra token ''id_token'' = Some (JString rawIDToken)"
    and "ParseUnverified lib rawIDToken = Inr claims"
    and "isValidIssuer validIssuers (fst (assert_string_ok (claims ''iss'')))"
  shows "(\<not> aud_contains claims (clientId (BaseProvider p)) \<longrightarrow>
            parseIDToken lib p rawIDToken = (None, Some (New ''invalid id_token audience''))
          \<and> FetchAuthUser lib ParseDateTime p token
               = Return None (Some (New ''invalid id_token audience'')))
       \<and> (parseIDToken lib p rawIDToken = (Some claims, None)
            \<and> aud_contains claims (clientId (BaseProvider p))
          \<or> parseIDToken lib p rawIDToken = (None, Some (New ''invalid id_token audience''))
            \<and> FetchAuthUser lib ParseDateTime p token
               = Return None (Some (New ''invalid id_token audience'')))"
proof (cases "VerifyAudience claims (clientId (BaseProvider p)) True")
  case True
  then have "parseIDToken lib p rawIDToken = (Some claims, None)"
    using assms(3) by (simp add: parseIDToken_parsed [OF assms(2)])
  with VerifyAudience_contains [OF True] show ?thesis by simp
next
  case False
  then have rejected: "parseIDToken lib p rawIDToken = (None, Some (New ''invalid id_token audience''))"
    using assms(3) by (simp add: parseIDToken_parsed [OF assms(2)])
  have nonempty: "rawIDToken \<noteq> []"
    using assms(2) ParseUnverified_empty [of lib] by auto
  from rejected FetchAuthUser_error [OF assms(1) nonempty rejected] show ?thesis
    by simp
qed

theorem parseIDToken_audience_witness:
  "Extra (example_token (jwt seg_header seg_other_aud sig_a)) ''id_token''
     = Some (JString (jwt seg_header seg_other_aud sig_a))
   \<and> ParseUnverified example_lib (jwt seg_header seg_other_aud sig_a) = Inr claims_other_aud
   \<and> isValidIssuer validIssuers (fst (assert_string_ok (claims_other_aud ''iss'')))
   \<and> \<not> aud_contains claims_other_aud (clientId (BaseProvider example_zoho))
   \<and> parseIDToken example_lib example_zoho (jwt seg_header seg_other_aud sig_a)
       = (None, Some (New ''invalid id_token audience''))
   \<and> FetchAuthUser example_lib ParseDateTime_ok example_zoho
        (example_token (jwt seg_header seg_other_aud sig_a))
       = Return None (Some (New ''invalid id_token audience''))"
proof -
  have parsed: "ParseUnverified example_lib (jwt seg_header seg_other_aud sig_a) = Inr claims_other_aud"
    by (rule parse_other_aud [OF sig_no_dot(1)])
  have issuer: "isValidIssuer validIssuers (fst (assert_string_ok (claims_other_aud ''iss'')))"
    using zoho_com_valid by (simp add: claims_other_aud_def claims_with_simps assert_string_ok_def)
  have other: "\<not> aud_contains claims_other_aud (clientId (BaseProvider example_zoho))"
    by (simp add: aud_contains_def claims_other_aud_def claims_with_simps example_zoho_clientId)
  from parseIDToken_audience [OF Extra_example_token parsed issuer, of example_zoho ParseDateTime_ok]
    Extra_example_token parsed issuer other
  show ?thesis by blast
qed

section \<open>Empty identity fields\<close>

text \<open>
  C5, as the claim states it, fails: an id_token that passes the validation with
  sub = "" and email = "" makes FetchAuthUser return an AuthUser with an empty Id
  and an empty Email, and no error.
\<close>

theorem FetchAuthUser_empty_id_email_counterexample:
  "FetchAuthUser example_lib ParseDateTime_ok example_zoho
     (example_token (jwt seg_header seg_empty sig_a))
     = Return (Some \<lparr>Id = '''', Username = '''', Name = '''', Email = '''', AvatarUrl = '''',
                      RawUser = claims_empty, AccessToken = ''access'',
                      RefreshToken = ''refresh'', Expiry = DateTime 1700000000\<rparr>) None"
  unfolding FetchAuthUser_accepted [OF Extra_example_token jwt_nonempty accepted_empty]
  by (simp add: assert_string_def claims_empty_def claims_with_def
      example_token_def ParseDateTime_ok_def)

text \<open>
  C5, amended. Whenever FetchAuthUser returns an AuthUser and no error, the token
  carries an id_token that passes the validation, and the user's Id and Email are
  the strings of its sub and email claims: they are empty exactly when those
  claims are empty strings, and no step checks that they are not.
\<close>

theorem FetchAuthUser_id_email_are_claims:
  assumes "FetchAuthUser lib ParseDateTime p token = Return (Some user) None"
  shows "\<exists>rawIDToken claims.
           Extra token ''id_token'' = Some (JString rawIDToken)
         \<and> parseIDToken lib p rawIDToken = (Some claims, None)
         \<and> claims ''sub'' = Some (JString (AuthUser.Id user))
         \<and> claims ''email'' = Some (JString (Email user))"
proof -
  from FetchAuthUser_success [OF assms] obtain rawIDToken claims
    where extra: "Extra token ''id_token'' = Some (JString rawIDToken)"
      and nonempty: "rawIDToken \<noteq> []"
      and accepted: "parseIDToken lib p rawIDToken = (Some claims, None)"
    by blast
  from assms have "claims ''sub'' = Some (JString (AuthUser.Id user))
      \<and> claims ''email'' = Some (JString (Email user))"
    unfolding FetchAuthUser_accepted [OF extra nonempty accepted]
    by (auto simp: assert_string_Some split: option.splits)
  with extra accepted show ?thesis by blast
qed

theorem FetchAuthUser_id_email_are_claims_witness:
  "FetchAuthUser example_lib ParseDateTime_ok example_zoho
     (example_token (jwt seg_header seg_good sig_a))
     = Return (Some (example_user claims_good (DateTime 1700000000))) None
   \<and> (\<exists>rawIDToken claims.
           Extra (example_token (jwt seg_header seg_good sig_a)) ''id_token''
             = Some (JString rawIDToken)
         \<and> parseIDToken example_lib example_zoho rawIDToken = (Some claims, None)
         \<and> claims ''sub'' = Some (JString ''123'')
         \<and> claims ''email'' = Some (JString ''a@b.com''))"
  using FetchAuthUser_id_email_are_claims [OF fetch_good] fetch_good
  by (simp add: example_user_def)

section \<open>Claims that are not strings\<close>

text \<open>
  C6. The claim fails on the code. When an id_token passes the validation and its
  sub, email, name or picture claim is absent or not a string, the single-value
  type assertion panics: FetchAuthUser returns neither an AuthUser nor an error.
  The witness is a token without a picture claim.
\<close>

theorem FetchAuthUser_panics:
  assumes "Extra token ''id_token'' = Some (JString rawIDToken)"
    and "parseIDToken lib p rawIDToken = (Some claims, None)"
    and "(\<forall>s. claims ''sub'' \<noteq> Some (JString s)) \<or> (\<forall>s. claims ''email'' \<noteq> Some (JString s))
       \<or> (\<forall>s. claims ''name'' \<noteq> Some (JString s)) \<or> (\<forall>s. claims ''picture'' \<noteq> Some (JString s))"
  shows "FetchAuthUser lib ParseDateTime p token = Panic"
  unfolding FetchAuthUser_accepted [OF assms(1) parseIDToken_accepted(4) [OF assms(2)] assms(2)]
  using assms(3) by (auto simp: assert_string_Some split: option.splits)

theorem FetchAuthUser_panics_witness:
  "parseIDToken example_lib example_zoho (jwt seg_header seg_no_picture sig_a)
     = (Some claims_no_picture, None)
   \<and> claims_no_picture ''picture'' = None
   \<and> FetchAuthUser example_lib ParseDateTime_ok example_zoho
        (example_token (jwt seg_header seg_no_picture sig_a)) = Panic"
proof -
  have absent: "claims_no_picture ''picture'' = None"
    by (simp add: claims_no_picture_def claims_with_def)
  then have "(\<forall>s. claims_no_picture ''sub'' \<noteq> Some (JString s))
       \<or> (\<forall>s. claims_no_picture ''email'' \<noteq> Some (JString s))
       \<or> (\<forall>s. claims_no_picture ''name'' \<noteq> Some (JString s))
       \<or> (\<forall>s. claims_no_picture ''picture'' \<noteq> Some (JString s))"
    by simp
  from FetchAuthUser_panics [OF Extra_example_token accepted_no_picture this] absent
    accepted_no_picture
  show ?thesis by simp
qed

section \<open>The email_verified claim\<close>

text \<open>
  C7, as the claim states it, fails: two id_tokens whose claims differ only in
  email_verified give AuthUser records that differ, since RawUser holds the claims.
\<close>

theorem email_verified_in_RawUser_counterexample:
  "FetchAuthUser example_lib ParseDateTime_ok example_zoho
     (example_token (jwt seg_header seg_verified sig_a))
     = Return (Some (example_user claims_verified (DateTime 1700000000))) None
   \<and> FetchAuthUser example_lib ParseDateTime_ok example_zoho
     (example_token (jwt seg_header seg_unverified sig_a))
     = Return (Some (example_user claims_unverified (DateTime 1700000000))) None
   \<and> claims_verified(''email_verified'' := None) = claims_unverified(''email_verified'' := None)
   \<and> example_user claims_verified (DateTime 1700000000)
       \<noteq> example_user claims_unverified (DateTime 1700000000)"
proof -
  have same: "claims_verified(''email_verified'' := None) = claims_unverified(''email_verified'' := None)"
    by (rule ext) (simp add: claims_verified_def claims_unverified_def claims_with_def)
  have "RawUser (example_user claims_verified (DateTime 1700000000)) ''email_verified''
      \<noteq> RawUser (example_user claims_unverified (DateTime 1700000000)) ''email_verified''"
    by (simp add: example_user_def claims_verified_def claims_unverified_def claims_with_def)
  then have "example_user claims_verified (DateTime 1700000000)
       \<noteq> example_user claims_unverified (DateTime 1700000000)"
    by auto
  with fetch_verified fetch_unverified same show ?thesis by simp
qed

text \<open>
  C7, amended. Take two tokens with the same access token, refresh token and
  expiry, whose id_tokens pass the validation with claims that agree on every key
  but email_verified. If FetchAuthUser returns a user for the first, its Email is
  the string of the email claim, and FetchAuthUser returns for the second the same
  user but for RawUser, which holds the second token's claims.
\<close>

theorem email_verified_ignored:
  assumes "Extra token1 ''id_token'' = Some (JString rawIDToken1)"
    and "Extra token2 ''id_token'' = Some (JString rawIDToken2)"
    and "parseIDToken lib p rawIDToken1 = (Some claims1, None)"
    and "parseIDToken lib p rawIDToken2 = (Some claims2, None)"
    and "\<forall>k. k \<noteq> ''email_verified'' \<longrightarrow> claims1 k = claims2 k"
    and "Token.AccessToken token1 = Token.AccessToken token2"
    and "Token.RefreshToken token1 = Token.RefreshToken token2"
    and "Token.Expiry token1 = Token.Expiry token2"
    and "FetchAuthUser lib ParseDateTime p token1 = Return (Some user1) None"
  shows "claims1 ''email'' = Some (JString (Email user1))
       \<and> FetchAuthUser lib ParseDateTime p token2 = Return (Some (user1\<lparr>RawUser := claims2\<rparr>)) None"
proof -
  have same: "claims1 ''sub'' = claims2 ''sub''" "claims1 ''email'' = claims2 ''email''"
    "claims1 ''name'' = claims2 ''name''" "claims1 ''picture'' = claims2 ''picture''"
    using assms(5) by simp_all
  note run1 = FetchAuthUser_accepted [OF assms(1) parseIDToken_accepted(4) [OF assms(3)] assms(3)]
  note run2 = FetchAuthUser_accepted [OF assms(2) parseIDToken_accepted(4) [OF assms(4)] assms(4)]
  from assms(9) show ?thesis
    unfolding run1 run2 same assms(6,7,8)
    by (auto simp: assert_string_def split: option.splits json_value.splits)
qed

theorem email_verified_ignored_witness:
  "claims_verified(''email_verified'' := None) = claims_unverified(''email_verified'' := None)
   \<and> FetchAuthUser example_lib ParseDateTime_ok example_zoho
       (example_token (jwt seg_header seg_verified sig_a))
       = Return (Some (example_user claims_verified (DateTime 1700000000))) None
   \<and> claims_verified ''email'' = Some (JString ''a@b.com'')
   \<and> FetchAuthUser example_lib ParseDateTime_ok example_zoho
       (example_token (jwt seg_header seg_unverified sig_a))
       = Return (Some ((example_user claims_verified (DateTime 1700000000))
                        \<lparr>RawUser := claims_unverified\<rparr>)) None"
proof -
  have same: "\<forall>k. k \<noteq> ''email_verified'' \<longrightarrow> claims_verified k = claims_unverified k"
    by (simp add: claims_verified_def claims_unverified_def claims_with_def)
  have off: "claims_verified(''email_verified'' := None) = claims_unverified(''email_verified'' := None)"
    by (rule ext) (simp add: same)
  from email_verified_ignored
         [OF Extra_example_token Extra_example_token accepted_verified accepted_unverified same
             _ _ _ fetch_verified]
    off fetch_verified
  show ?thesis by (simp add: example_token_def example_user_def)
qed

section \<open>Looking up zoho in the registry\<close>

text \<open>
  C8. On every registry table that init has run on and on every heap, looking up
  "zoho" twice gives two pointers to two newly allocated objects, distinct from
  each other and from every object allocated before, which are left as they were.
  Both objects have the scopes profile, email, openid, the PKCE flag set and the
  display name Zoho. Setting the clientId and the clientSecret of either one
  changes that one and leaves the other as it was.
\<close>

theorem registry_zoho_fresh_instances:
  "\<exists>a1 h1 a2 h2.
     NewProviderByName (init Providers) ''zoho'' h = Inr (a1, h1)
   \<and> NewProviderByName (init Providers) ''zoho'' h1 = Inr (a2, h2)
   \<and> a1 \<noteq> a2 \<and> length h \<le> a1 \<and> length h \<le> a2 \<and> a1 < length h2 \<and> a2 < length h2
   \<and> take (length h) h2 = h
   \<and> scopes (BaseProvider (h2 ! a1)) = [''profile'', ''email'', ''openid'']
   \<and> pkce (BaseProvider (h2 ! a1)) = True
   \<and> displayName (BaseProvider (h2 ! a1)) = ''Zoho''
   \<and> scopes (BaseProvider (h2 ! a2)) = [''profile'', ''email'', ''openid'']
   \<and> pkce (BaseProvider (h2 ! a2)) = True
   \<and> displayName (BaseProvider (h2 ! a2)) = ''Zoho''
   \<and> clientId (BaseProvider (SetClientSecret a1 secret (SetClientId a1 cid h2) ! a1)) = cid
   \<and> clientSecret (BaseProvider (SetClientSecret a1 secret (SetClientId a1 cid h2) ! a1)) = secret
   \<and> SetClientSecret a1 secret (SetClientId a1 cid h2) ! a2 = h2 ! a2
   \<and> clientId (BaseProvider (SetClientSecret a2 secret (SetClientId a2 cid h2) ! a2)) = cid
   \<and> clientSecret (BaseProvider (SetClientSecret a2 secret (SetClientId a2 cid h2) ! a2)) = secret
   \<and> SetClientSecret a2 secret (SetClientId a2 cid h2) ! a1 = h2 ! a1"
  by (simp add: NewProviderByName_def init_def NameZoho_def wrapFactory_def NewZohoProvider_def
      SetClientId_def SetClientSecret_def nth_append)

section \<open>The signature segment\<close>

lemma parseIDToken_signature:
  assumes "CHR ''.'' \<notin> set h" "CHR ''.'' \<notin> set pl" "CHR ''.'' \<notin> set s1" "CHR ''.'' \<notin> set s2"
  shows "parseIDToken lib p (jwt h pl s1) = parseIDToken lib p (jwt h pl s2)"
  by (simp add: parseIDToken_def ParseUnverified_signature [OF assms])

text \<open>
  C9. For two tokens of three segments with the same header and payload segments,
  whatever their signature segments are, parseIDToken returns the same result, and
  FetchAuthUser returns the same result on token responses that differ only in
  which of the two id_tokens they carry.
\<close>

theorem signature_not_verified:
  assumes "CHR ''.'' \<notin> set h" "CHR ''.'' \<notin> set pl" "CHR ''.'' \<notin> set s1" "CHR ''.'' \<notin> set s2"
  shows "parseIDToken lib p (jwt h pl s1) = parseIDToken lib p (jwt h pl s2)
       \<and> FetchAuthUser lib ParseDateTime p (with_id_token token (jwt h pl s1))
         = FetchAuthUser lib ParseDateTime p (with_id_token token (jwt h pl s2))"
proof -
  have parse: "parseIDToken lib p (jwt h pl s1) = parseIDToken lib p (jwt h pl s2)"
    by (rule parseIDToken_signature [OF assms])
  have "FetchAuthUser lib ParseDateTime p (with_id_token token (jwt h pl s1))
         = FetchAuthUser lib ParseDateTime p (with_id_token token (jwt h pl s2))"
    using jwt_nonempty [of h pl s1] jwt_nonempty [of h pl s2]
    by (simp add: FetchAuthUser_def Extra_def with_id_token_def assert_string_ok_def parse)
  with parse show ?thesis by simp
qed

theorem signature_not_verified_witness:
  "CHR ''.'' \<notin> set seg_header \<and> CHR ''.'' \<notin> set seg_good
   \<and> CHR ''.'' \<notin> set sig_a \<and> CHR ''.'' \<notin> set sig_b \<and> sig_a \<noteq> sig_b
   \<and> parseIDToken example_lib example_zoho (jwt seg_header seg_good sig_a) = (Some claims_good, None)
   \<and> parseIDToken example_lib example_zoho (jwt seg_header seg_good sig_b) = (Some claims_good, None)
   \<and> FetchAuthUser example_lib ParseDateTime_ok example_zoho
        (with_id_token token_without_id_token (jwt seg_header seg_good sig_a))
      = FetchAuthUser example_lib ParseDateTime_ok example_zoho
        (with_id_token token_without_id_token (jwt seg_header seg_good sig_b))"
proof -
  have differ: "sig_a \<noteq> sig_b"
    by (simp add: sig_a_def sig_b_def)
  from signature_not_verified [OF seg_no_dot(1,2) sig_no_dot, of example_lib example_zoho
      ParseDateTime_ok token_without_id_token]
    seg_no_dot(1,2) sig_no_dot differ accepted_good
  show ?thesis by simp
qed

end
